theory Spec2Isabelle
  imports Complex_Main
begin

section \<open>Numbers\<close>

text \<open>
  Prices, costs, thresholds and amounts are JavaScript numbers. They are modelled as
  \<^typ>\<open>real\<close>: finite values with exact arithmetic and the usual total order, so
  rounding and NaN inputs are outside the model. The one division of the detector,
  \<^verbatim>\<open>(100 - totalCost) / totalCost\<close>, can meet a zero divisor, where JavaScript yields
  an infinity or NaN instead of failing; its result type \<open>jsnum\<close> keeps those values
  apart from the finite ones. A zero divisor is read as positive zero. Since the finite
  results are exact here and rounded in the source, the order of two computed values is
  only ever stated in the non-strict form that a monotone rounding preserves.
\<close>

datatype jsnum = Fin real | PosInfinity | NegInfinity | NaN

definition js_div :: "real \<Rightarrow> real \<Rightarrow> jsnum" where
  "js_div a b =
     (if b \<noteq> 0 then Fin (a / b)
      else if 0 < a then PosInfinity
      else if a < 0 then NegInfinity
      else NaN)"

fun js_times :: "jsnum \<Rightarrow> real \<Rightarrow> jsnum" where
  "js_times (Fin a) b = Fin (a * b)"
| "js_times PosInfinity b = (if 0 < b then PosInfinity else if b < 0 then NegInfinity else NaN)"
| "js_times NegInfinity b = (if 0 < b then NegInfinity else if b < 0 then PosInfinity else NaN)"
| "js_times NaN b = NaN"

fun js_over :: "jsnum \<Rightarrow> real \<Rightarrow> jsnum" where
  "js_over (Fin a) b = js_div a b"
| "js_over PosInfinity b = (if 0 \<le> b then PosInfinity else NegInfinity)"
| "js_over NegInfinity b = (if 0 \<le> b then NegInfinity else PosInfinity)"
| "js_over NaN b = NaN"

section \<open>Data model (types/market)\<close>

record MarketPrice =
  upPrice :: real
  downPrice :: real
  bettedPrice :: "real option"
  price_timestamp :: int

record MarketData =
  md_marketId :: string
  md_marketTitle :: "string option"
  md_endTime :: "string option"
  md_isResolved :: bool
  md_resolvedPrice :: "real option"
  polymarket :: MarketPrice
  kalshi :: MarketPrice

datatype opportunity_type = both | poly_up_kalshi_down | poly_down_kalshi_up

datatype action = buy_poly_up_kalshi_down | buy_poly_down_kalshi_up | skip

record ArbitrageOpportunity =
  marketId :: string
  marketTitle :: "string option"
  opportunityType :: opportunity_type
  polyUpPrice :: real
  polyDownPrice :: real
  kalshiUpPrice :: real
  kalshiDownPrice :: real
  totalCost :: real
  profitPotential :: jsnum
  polyBettedPrice :: "real option"
  kalshiBettedPrice :: "real option"
  opp_action :: action
  opp_timestamp :: int

section \<open>ArbitrageDetector\<close>

text \<open>
  \<^verbatim>\<open>determineAction(hasBoth, hasPolyUpKalshiDown, hasPolyDownKalshiUp, poly, kalshi)\<close>.
  An absent \<^verbatim>\<open>bettedPrice\<close> (\<^verbatim>\<open>undefined\<close>) is \<open>None\<close>.
\<close>

definition determineAction ::
  "bool \<Rightarrow> bool \<Rightarrow> bool \<Rightarrow> MarketPrice \<Rightarrow> MarketPrice \<Rightarrow> action" where
  "determineAction hasBoth hasPolyUpKalshiDown hasPolyDownKalshiUp poly kal =
     (let polyBetted = bettedPrice poly; kalshiBetted = bettedPrice kal in
      if hasBoth then
        (case (polyBetted, kalshiBetted) of
           (Some pb, Some kb) \<Rightarrow>
             if kb > pb then buy_poly_up_kalshi_down
             else if kb < pb then buy_poly_down_kalshi_up
             else
               (let cost1 = upPrice poly + downPrice kal;
                    cost2 = downPrice poly + upPrice kal
                in if cost1 < cost2 then buy_poly_up_kalshi_down else buy_poly_down_kalshi_up)
         | _ \<Rightarrow>
             (let cost1 = upPrice poly + downPrice kal;
                  cost2 = downPrice poly + upPrice kal
              in if cost1 < cost2 then buy_poly_up_kalshi_down else buy_poly_down_kalshi_up))
      else if hasPolyUpKalshiDown then
        (case (polyBetted, kalshiBetted) of
           (Some pb, Some kb) \<Rightarrow> if pb < kb then buy_poly_up_kalshi_down else skip
         | _ \<Rightarrow> skip)
      else if hasPolyDownKalshiUp then
        (case (polyBetted, kalshiBetted) of
           (Some pb, Some kb) \<Rightarrow> if pb > kb then buy_poly_down_kalshi_up else skip
         | _ \<Rightarrow> skip)
      else skip)"

text \<open>
  \<^verbatim>\<open>detectOpportunity(marketData)\<close>; \<open>PROFIT_THRESHOLD\<close> is the constructor's
  \<^verbatim>\<open>takeProfit\<close> and \<open>now\<close> is the value of \<^verbatim>\<open>Date.now()\<close>. Returning \<^verbatim>\<open>null\<close> is \<open>None\<close>.
\<close>

definition detectOpportunity ::
  "real \<Rightarrow> int \<Rightarrow> MarketData \<Rightarrow> ArbitrageOpportunity option" where
  "detectOpportunity PROFIT_THRESHOLD now marketData =
     (let poly = polymarket marketData; kal = kalshi marketData;
          polyUpKalshiDown = upPrice poly + downPrice kal;
          polyDownKalshiUp = downPrice poly + upPrice kal;
          hasBothOpportunities =
            (polyUpKalshiDown < PROFIT_THRESHOLD \<and> polyDownKalshiUp < PROFIT_THRESHOLD);
          hasPolyUpKalshiDown = (polyUpKalshiDown < PROFIT_THRESHOLD);
          hasPolyDownKalshiUp = (polyDownKalshiUp < PROFIT_THRESHOLD)
      in
      if \<not> hasPolyUpKalshiDown \<and> \<not> hasPolyDownKalshiUp then None
      else
        (let act = determineAction hasBothOpportunities hasPolyUpKalshiDown
                     hasPolyDownKalshiUp poly kal
         in
         if act = skip then None
         else
           (let tc = (if hasBothOpportunities then min polyUpKalshiDown polyDownKalshiUp
                      else if hasPolyUpKalshiDown then polyUpKalshiDown
                      else polyDownKalshiUp);
                pp = js_times (js_div (100 - tc) tc) 100;
                ot = (if hasBothOpportunities then both
                      else if hasPolyUpKalshiDown then poly_up_kalshi_down
                      else poly_down_kalshi_up)
            in Some \<lparr> marketId = md_marketId marketData,
                       marketTitle = md_marketTitle marketData,
                       opportunityType = ot,
                       polyUpPrice = upPrice poly,
                       polyDownPrice = downPrice poly,
                       kalshiUpPrice = upPrice kal,
                       kalshiDownPrice = downPrice kal,
                       totalCost = tc,
                       profitPotential = pp,
                       polyBettedPrice = bettedPrice poly,
                       kalshiBettedPrice = bettedPrice kal,
                       opp_action = act,
                       opp_timestamp = now \<rparr>)))"

text \<open>The two combination costs of a market, and the cost of the combination an action buys.\<close>

definition costUpDown :: "MarketData \<Rightarrow> real" where
  "costUpDown m = upPrice (polymarket m) + downPrice (kalshi m)"

definition costDownUp :: "MarketData \<Rightarrow> real" where
  "costDownUp m = downPrice (polymarket m) + upPrice (kalshi m)"

fun actionCost :: "MarketData \<Rightarrow> action \<Rightarrow> real option" where
  "actionCost m buy_poly_up_kalshi_down = Some (costUpDown m)"
| "actionCost m buy_poly_down_kalshi_up = Some (costDownUp m)"
| "actionCost m skip = None"


section \<open>Venue adapters\<close>

text \<open>
  The two clients are the boundary of the core: each call of the core on a client is
  recorded in a trace, and its outcome is read from an oracle. An oracle is indexed by the
  number of calls issued before it, so a venue may answer the same question differently
  at different times. A promise settles as \<open>fulfilled v\<close> or \<open>rejected\<close>.
\<close>

datatype 'a settled = fulfilled 'a | rejected

datatype outcome = YES | NO

datatype kalshi_side = yes | no

datatype call =
    poly_getActiveBTCMarkets
  | kalshi_getActiveBTCMarkets
  | poly_getMarketPrices string
  | kalshi_getMarketPrices string
  | poly_buyToken string outcome real real
  | kalshi_buyToken string kalshi_side real real
  | poly_isMarketResolved string
  | kalshi_isMarketResolved string
  | poly_redeemTokens string outcome
  | kalshi_redeemTokens string kalshi_side

datatype venue = Polymarket | Kalshi

datatype side = up | down

datatype order_status = pending | filled | failed

record Trade =
  trade_id :: string
  trade_marketId :: string
  platform :: venue
  trade_side :: side
  trade_amount :: real
  trade_price :: real
  trade_timestamp :: int
  trade_status :: order_status
  txHash :: "string option"

text \<open>The fields of the venues' market listings that the matcher reads.\<close>

record PolyMarket =
  pm_id :: string
  question :: "string option"
  title :: "string option"
  endDate :: "string option"
  end_time :: "string option"
  resolved :: bool
  resolvedPrice :: "real option"

record KalshiMarket =
  ticker :: string
  expiration_time :: "string option"
  km_status :: string
  series_ticker :: "string option"
  betted_price :: "real option"

text \<open>
  \<open>parseDate s\<close> is \<^verbatim>\<open>new Date(s).getTime()\<close>, \<open>None\<close> for NaN (an invalid date);
  \<open>dateNow\<close> is \<^verbatim>\<open>Date.now()\<close>.
\<close>

record env =
  polyActiveBTCMarkets :: "nat \<Rightarrow> PolyMarket list settled"
  kalshiActiveBTCMarkets :: "nat \<Rightarrow> KalshiMarket list settled"
  polyMarketPrices :: "nat \<Rightarrow> string \<Rightarrow> MarketPrice settled"
  kalshiMarketPrices :: "nat \<Rightarrow> string \<Rightarrow> MarketPrice settled"
  polyBuyToken :: "nat \<Rightarrow> string \<Rightarrow> outcome \<Rightarrow> real \<Rightarrow> real \<Rightarrow> Trade settled"
  kalshiBuyToken :: "nat \<Rightarrow> string \<Rightarrow> kalshi_side \<Rightarrow> real \<Rightarrow> real \<Rightarrow> Trade settled"
  polyIsMarketResolved :: "nat \<Rightarrow> string \<Rightarrow> bool settled"
  kalshiIsMarketResolved :: "nat \<Rightarrow> string \<Rightarrow> bool settled"
  polyRedeemTokens :: "nat \<Rightarrow> string \<Rightarrow> outcome \<Rightarrow> bool settled"
  kalshiRedeemTokens :: "nat \<Rightarrow> string \<Rightarrow> kalshi_side \<Rightarrow> bool settled"
  parseDate :: "string \<Rightarrow> int option"
  dateNow :: "nat \<Rightarrow> int"

section \<open>MarketMatcher\<close>

text \<open>JavaScript's \<^verbatim>\<open>a || b\<close> on optional strings and numbers: the first truthy operand.\<close>

definition js_or :: "string option \<Rightarrow> string option \<Rightarrow> string option" where
  "js_or a b = (case a of Some s \<Rightarrow> if s \<noteq> [] then a else b | None \<Rightarrow> b)"

definition js_or_num :: "real option \<Rightarrow> real option \<Rightarrow> real option" where
  "js_or_num a b = (case a of Some x \<Rightarrow> if x \<noteq> 0 then a else b | None \<Rightarrow> b)"

text \<open>\<^verbatim>\<open>new Date(v).getTime()\<close> for an optional string; \<^verbatim>\<open>new Date(undefined)\<close> is invalid.\<close>

definition getTime :: "(string \<Rightarrow> int option) \<Rightarrow> string option \<Rightarrow> int option" where
  "getTime parse v = (case v of None \<Rightarrow> None | Some s \<Rightarrow> parse s)"

text \<open>\<^verbatim>\<open>s.includes(sub)\<close>.\<close>

fun js_includes :: "string \<Rightarrow> string \<Rightarrow> bool" where
  "js_includes [] sub = (sub = [])"
| "js_includes (c # cs) sub = (take (length sub) (c # cs) = sub \<or> js_includes cs sub)"

text \<open>
  The test of the loop body of \<^verbatim>\<open>findMatchingKalshiMarket\<close>:
  \<^verbatim>\<open>timeDiff < 60000 && kalshiMarket.series_ticker?.includes('BTC-15M')\<close>, where a
  comparison with NaN is false.
\<close>

definition isMatch :: "(string \<Rightarrow> int option) \<Rightarrow> PolyMarket \<Rightarrow> KalshiMarket \<Rightarrow> bool" where
  "isMatch parse polyMarket kalshiMarket =
     (let polyEndTime = getTime parse (js_or (endDate polyMarket) (end_time polyMarket));
          kalshiEndTime = getTime parse (expiration_time kalshiMarket)
      in (case (polyEndTime, kalshiEndTime) of
            (Some p, Some k) \<Rightarrow> \<bar>p - k\<bar> < 60000
          | _ \<Rightarrow> False)
         \<and> (case series_ticker kalshiMarket of
               None \<Rightarrow> False
             | Some s \<Rightarrow> js_includes s ''BTC-15M''))"

fun findMatchingKalshiMarket ::
  "(string \<Rightarrow> int option) \<Rightarrow> PolyMarket \<Rightarrow> KalshiMarket list \<Rightarrow> KalshiMarket option" where
  "findMatchingKalshiMarket parse polyMarket [] = None"
| "findMatchingKalshiMarket parse polyMarket (kalshiMarket # kalshiMarkets) =
     (if isMatch parse polyMarket kalshiMarket then Some kalshiMarket
      else findMatchingKalshiMarket parse polyMarket kalshiMarkets)"

text \<open>
  The loop of \<^verbatim>\<open>matchMarkets\<close>. Both price requests of a matched pair are issued; if
  either is rejected, \<^verbatim>\<open>Promise.all\<close> throws and the loop ends with \<open>None\<close>.
\<close>

fun matchLoop ::
  "env \<Rightarrow> PolyMarket list \<Rightarrow> KalshiMarket list \<Rightarrow> MarketData list \<Rightarrow> call list
     \<Rightarrow> MarketData list option \<times> call list" where
  "matchLoop e [] kalshiMarkets matchedMarkets tr = (Some matchedMarkets, tr)"
| "matchLoop e (polyMarket # polyMarkets) kalshiMarkets matchedMarkets tr =
     (case findMatchingKalshiMarket (parseDate e) polyMarket kalshiMarkets of
        None \<Rightarrow> matchLoop e polyMarkets kalshiMarkets matchedMarkets tr
      | Some kalshiMarket \<Rightarrow>
          (let polyPrices = polyMarketPrices e (length tr) (pm_id polyMarket);
               tr1 = tr @ [poly_getMarketPrices (pm_id polyMarket)];
               kalshiPrices = kalshiMarketPrices e (length tr1) (ticker kalshiMarket);
               tr2 = tr1 @ [kalshi_getMarketPrices (ticker kalshiMarket)]
           in case (polyPrices, kalshiPrices) of
                (fulfilled pp, fulfilled kp) \<Rightarrow>
                  matchLoop e polyMarkets kalshiMarkets
                    (matchedMarkets @
                      [\<lparr> md_marketId = pm_id polyMarket,
                          md_marketTitle = js_or (question polyMarket) (title polyMarket),
                          md_endTime = js_or (endDate polyMarket) (expiration_time kalshiMarket),
                          md_isResolved =
                            (resolved polyMarket \<or> km_status kalshiMarket = ''resolved''),
                          md_resolvedPrice =
                            js_or_num (resolvedPrice polyMarket) (betted_price kalshiMarket),
                          polymarket = pp,
                          kalshi = kp \<rparr>])
                    tr2
              | _ \<Rightarrow> (None, tr2)))"

text \<open>\<^verbatim>\<open>matchMarkets()\<close>: any rejection is caught and gives the empty list.\<close>

definition matchMarkets :: "env \<Rightarrow> call list \<Rightarrow> MarketData list \<times> call list" where
  "matchMarkets e tr =
     (let polyListing = polyActiveBTCMarkets e (length tr);
          tr1 = tr @ [poly_getActiveBTCMarkets];
          kalshiListing = kalshiActiveBTCMarkets e (length tr1);
          tr2 = tr1 @ [kalshi_getActiveBTCMarkets]
      in case (polyListing, kalshiListing) of
           (fulfilled polyMarkets, fulfilled kalshiMarkets) \<Rightarrow>
             (case matchLoop e polyMarkets kalshiMarkets [] tr2 of
                (Some matchedMarkets, tr3) \<Rightarrow> (matchedMarkets, tr3)
              | (None, tr3) \<Rightarrow> ([], tr3))
         | _ \<Rightarrow> ([], tr2))"

section \<open>Trader\<close>

datatype position_status = active | redeemed | expired

record Position =
  pos_marketId :: string
  polyUp :: real
  polyDown :: real
  kalshiUp :: real
  kalshiDown :: real
  pos_totalCost :: real
  expectedProfit :: jsnum
  status :: position_status

text \<open>The values the bot reads from the process environment.\<close>

record config =
  takeProfit :: real
  minTradeAmount :: real
  maxTradeAmount :: real
  tradePercentage :: real
  availableBalance :: real

text \<open>A fulfilled order yields a trade object, a rejected one leaves \<^verbatim>\<open>null\<close>.\<close>

definition tradeOf :: "Trade settled \<Rightarrow> Trade option" where
  "tradeOf r = (case r of fulfilled t \<Rightarrow> Some t | rejected \<Rightarrow> None)"

text \<open>
  \<^verbatim>\<open>executeArbitrage(opportunity, amount)\<close>. Both orders of \<^verbatim>\<open>Promise.allSettled\<close> are
  issued, the Polymarket one first, before either outcome is looked at.
\<close>

definition executeArbitrage ::
  "config \<Rightarrow> env \<Rightarrow> ArbitrageOpportunity \<Rightarrow> real \<Rightarrow> call list \<Rightarrow> Position option \<times> call list" where
  "executeArbitrage cfg e opportunity amount tr =
     (if amount < minTradeAmount cfg \<or> amount > maxTradeAmount cfg then (None, tr)
      else
        (let (polyTrade, kalshiTrade, tr') =
               (if opp_action opportunity = buy_poly_up_kalshi_down then
                  (let polyResult = polyBuyToken e (length tr) (marketId opportunity) YES amount
                                      (polyUpPrice opportunity);
                       tr1 = tr @ [poly_buyToken (marketId opportunity) YES amount
                                     (polyUpPrice opportunity)];
                       kalshiResult = kalshiBuyToken e (length tr1) (marketId opportunity) no amount
                                        (kalshiDownPrice opportunity);
                       tr2 = tr1 @ [kalshi_buyToken (marketId opportunity) no amount
                                      (kalshiDownPrice opportunity)]
                   in (tradeOf polyResult, tradeOf kalshiResult, tr2))
                else if opp_action opportunity = buy_poly_down_kalshi_up then
                  (let polyResult = polyBuyToken e (length tr) (marketId opportunity) NO amount
                                      (polyDownPrice opportunity);
                       tr1 = tr @ [poly_buyToken (marketId opportunity) NO amount
                                     (polyDownPrice opportunity)];
                       kalshiResult = kalshiBuyToken e (length tr1) (marketId opportunity) yes amount
                                        (kalshiUpPrice opportunity);
                       tr2 = tr1 @ [kalshi_buyToken (marketId opportunity) yes amount
                                      (kalshiUpPrice opportunity)]
                   in (tradeOf polyResult, tradeOf kalshiResult, tr2))
                else (None, None, tr))
         in if polyTrade = None \<or> kalshiTrade = None then (None, tr')
            else
              (Some \<lparr> pos_marketId = marketId opportunity,
                      polyUp = (if opp_action opportunity = buy_poly_up_kalshi_down then amount else 0),
                      polyDown = (if opp_action opportunity = buy_poly_down_kalshi_up then amount else 0),
                      kalshiUp = (if opp_action opportunity = buy_poly_down_kalshi_up then amount else 0),
                      kalshiDown = (if opp_action opportunity = buy_poly_up_kalshi_down then amount else 0),
                      pos_totalCost = totalCost opportunity * amount / 100,
                      expectedProfit = js_over (js_times (profitPotential opportunity) amount) 100,
                      status = active \<rparr>,
               tr')))"

definition calculateTradeAmount :: "config \<Rightarrow> ArbitrageOpportunity \<Rightarrow> real \<Rightarrow> real" where
  "calculateTradeAmount cfg opportunity balance =
     (let calculatedAmount = balance * tradePercentage cfg
      in min (max calculatedAmount (minTradeAmount cfg)) (maxTradeAmount cfg))"

section \<open>Redeemer\<close>

text \<open>
  The redemption requests of \<^verbatim>\<open>redeemPosition\<close>: one per leg with a positive amount, in
  the order Polymarket YES, Polymarket NO, Kalshi yes, Kalshi no, with their outcomes.
\<close>

definition redeemRequests :: "env \<Rightarrow> Position \<Rightarrow> call list \<Rightarrow> bool settled list \<times> call list" where
  "redeemRequests e position tr =
     (let (rs1, tr1) =
            (if polyUp position > 0 then
               ([polyRedeemTokens e (length tr) (pos_marketId position) YES],
                tr @ [poly_redeemTokens (pos_marketId position) YES])
             else ([], tr));
          (rs2, tr2) =
            (if polyDown position > 0 then
               (rs1 @ [polyRedeemTokens e (length tr1) (pos_marketId position) NO],
                tr1 @ [poly_redeemTokens (pos_marketId position) NO])
             else (rs1, tr1));
          (rs3, tr3) =
            (if kalshiUp position > 0 then
               (rs2 @ [kalshiRedeemTokens e (length tr2) (pos_marketId position) yes],
                tr2 @ [kalshi_redeemTokens (pos_marketId position) yes])
             else (rs2, tr2))
      in (if kalshiDown position > 0 then
            (rs3 @ [kalshiRedeemTokens e (length tr3) (pos_marketId position) no],
             tr3 @ [kalshi_redeemTokens (pos_marketId position) no])
          else (rs3, tr3)))"

definition redeemPosition :: "env \<Rightarrow> Position \<Rightarrow> call list \<Rightarrow> Position \<times> call list" where
  "redeemPosition e position tr =
     (let (results, tr') = redeemRequests e position tr;
          allSucceeded = list_all (\<lambda>r. r = fulfilled True) results
      in (if allSucceeded then position\<lparr>status := redeemed\<rparr> else position, tr'))"

text \<open>The body of the loop of \<^verbatim>\<open>checkAndRedeem\<close> for one position.\<close>

definition checkPosition :: "env \<Rightarrow> Position \<Rightarrow> call list \<Rightarrow> Position \<times> call list" where
  "checkPosition e position tr =
     (if status position \<noteq> active then (position, tr)
      else
        (let polyResolved = polyIsMarketResolved e (length tr) (pos_marketId position);
             tr1 = tr @ [poly_isMarketResolved (pos_marketId position)];
             kalshiResolved = kalshiIsMarketResolved e (length tr1) (pos_marketId position);
             tr2 = tr1 @ [kalshi_isMarketResolved (pos_marketId position)]
         in case (polyResolved, kalshiResolved) of
              (fulfilled pr, fulfilled kr) \<Rightarrow>
                if pr \<and> kr then redeemPosition e position tr2 else (position, tr2)
            | _ \<Rightarrow> (position, tr2)))"

fun checkAndRedeem :: "env \<Rightarrow> Position list \<Rightarrow> call list \<Rightarrow> Position list \<times> call list" where
  "checkAndRedeem e [] tr = ([], tr)"
| "checkAndRedeem e (position # positions) tr =
     (let (position', tr1) = checkPosition e position tr;
          (positions', tr2) = checkAndRedeem e positions tr1
      in (position' # positions', tr2))"

section \<open>ArbitrageBot\<close>

text \<open>The loop of \<^verbatim>\<open>scanAndTrade\<close> over the matched markets.\<close>

fun scanLoop ::
  "config \<Rightarrow> env \<Rightarrow> MarketData list \<Rightarrow> Position list \<Rightarrow> call list
     \<Rightarrow> Position list \<times> call list" where
  "scanLoop cfg e [] positions tr = (positions, tr)"
| "scanLoop cfg e (market # markets) positions tr =
     (if md_isResolved market then scanLoop cfg e markets positions tr
      else
        (case detectOpportunity (takeProfit cfg) (dateNow e (length tr)) market of
           None \<Rightarrow> scanLoop cfg e markets positions tr
         | Some opportunity \<Rightarrow>
             (let existingPosition =
                    find (\<lambda>p. pos_marketId p = marketId opportunity) positions
              in if (case existingPosition of
                       Some p \<Rightarrow> status p = active
                     | None \<Rightarrow> False)
                 then scanLoop cfg e markets positions tr
                 else
                   (let tradeAmount =
                          calculateTradeAmount cfg opportunity (availableBalance cfg)
                    in case executeArbitrage cfg e opportunity tradeAmount tr of
                         (Some position, tr') \<Rightarrow>
                           scanLoop cfg e markets (positions @ [position]) tr'
                       | (None, tr') \<Rightarrow> scanLoop cfg e markets positions tr'))))"

definition scanAndTrade ::
  "config \<Rightarrow> env \<Rightarrow> Position list \<Rightarrow> call list \<Rightarrow> Position list \<times> call list" where
  "scanAndTrade cfg e positions tr =
     (let (matchedMarkets, tr1) = matchMarkets e tr
      in if matchedMarkets = [] then (positions, tr1)
         else scanLoop cfg e matchedMarkets positions tr1)"

text \<open>
  The bot's state is its position list and the trace of venue calls. A scan tick and a
  redemption poll each run to completion; a run is a sequence of them from the empty list.
\<close>

datatype step = Tick | Poll

definition botStep ::
  "config \<Rightarrow> env \<Rightarrow> Position list \<times> call list \<Rightarrow> step \<Rightarrow> Position list \<times> call list" where
  "botStep cfg e st s =
     (case s of
        Tick \<Rightarrow> scanAndTrade cfg e (fst st) (snd st)
      | Poll \<Rightarrow> checkAndRedeem e (fst st) (snd st))"

definition run :: "config \<Rightarrow> env \<Rightarrow> step list \<Rightarrow> Position list \<times> call list" where
  "run cfg e steps = foldl (botStep cfg e) ([], []) steps"

text \<open>The number of active positions on a market.\<close>

definition activeCount :: "string \<Rightarrow> Position list \<Rightarrow> nat" where
  "activeCount m positions =
     length (filter (\<lambda>p. pos_marketId p = m \<and> status p = active) positions)"




section \<open>Concrete inputs\<close>

definition mkPrice :: "real \<Rightarrow> real \<Rightarrow> real option \<Rightarrow> MarketPrice" where
  "mkPrice u d b = \<lparr> upPrice = u, downPrice = d, bettedPrice = b, price_timestamp = 0 \<rparr>"

definition mkMarket :: "MarketPrice \<Rightarrow> MarketPrice \<Rightarrow> MarketData" where
  "mkMarket p k =
     \<lparr> md_marketId = ''M'', md_marketTitle = None, md_endTime = None,
       md_isResolved = False, md_resolvedPrice = None, polymarket = p, kalshi = k \<rparr>"

text \<open>
  A Polymarket market closing at 00:15:00 and four Kalshi markets: one closing exactly 60
  seconds later, one of another series, and two of the series closing 30 and 0 seconds
  away, the nearer one listed last.
\<close>

definition parse0 :: "string \<Rightarrow> int option" where
  "parse0 s =
     (if s = ''2026-01-01T00:15:00Z'' then Some 1767226500000
      else if s = ''2026-01-01T00:15:30Z'' then Some 1767226530000
      else if s = ''2026-01-01T00:16:00Z'' then Some 1767226560000
      else None)"

definition pm0 :: PolyMarket where
  "pm0 = \<lparr> pm_id = ''0xbtc15'', question = Some ''BTC 15m up or down'', title = None,
           endDate = Some ''2026-01-01T00:15:00Z'', end_time = None,
           resolved = False, resolvedPrice = None \<rparr>"

definition mkKalshi :: "string \<Rightarrow> string \<Rightarrow> string \<Rightarrow> KalshiMarket" where
  "mkKalshi t x s =
     \<lparr> ticker = t, expiration_time = Some x, km_status = ''open'',
       series_ticker = Some s, betted_price = None \<rparr>"

definition kA :: KalshiMarket where
  "kA = mkKalshi ''KXBTC-A'' ''2026-01-01T00:16:00Z'' ''KXBTC-15M''"

definition kB :: KalshiMarket where
  "kB = mkKalshi ''KXETH-B'' ''2026-01-01T00:15:30Z'' ''KXETH-15M''"

definition kC :: KalshiMarket where
  "kC = mkKalshi ''KXBTC-C'' ''2026-01-01T00:15:30Z'' ''KXBTC-15M''"

definition kD :: KalshiMarket where
  "kD = mkKalshi ''KXBTC-D'' ''2026-01-01T00:15:00Z'' ''KXBTC-15M''"

text \<open>
  Venues that list these markets at every tick, quote 40/63 and 45/48 with betted prices
  38 and 42, fill every order, report every market resolved and redeem every leg.
\<close>

definition mkTrade :: "venue \<Rightarrow> string \<Rightarrow> side \<Rightarrow> real \<Rightarrow> real \<Rightarrow> Trade" where
  "mkTrade v m sd a p =
     \<lparr> trade_id = ''order'', trade_marketId = m, platform = v, trade_side = sd,
       trade_amount = a, trade_price = p, trade_timestamp = 0, trade_status = filled,
       txHash = None \<rparr>"

definition env0 :: env where
  "env0 =
     \<lparr> polyActiveBTCMarkets = (\<lambda>n. fulfilled [pm0]),
       kalshiActiveBTCMarkets = (\<lambda>n. fulfilled [kA, kB, kC, kD]),
       polyMarketPrices = (\<lambda>n m. fulfilled (mkPrice 40 63 (Some 38))),
       kalshiMarketPrices = (\<lambda>n m. fulfilled (mkPrice 45 48 (Some 42))),
       polyBuyToken =
         (\<lambda>n m oc a p. fulfilled (mkTrade Polymarket m (if oc = YES then up else down) a p)),
       kalshiBuyToken =
         (\<lambda>n m s a p. fulfilled (mkTrade Kalshi m (if s = yes then up else down) a p)),
       polyIsMarketResolved = (\<lambda>n m. fulfilled True),
       kalshiIsMarketResolved = (\<lambda>n m. fulfilled True),
       polyRedeemTokens = (\<lambda>n m oc. fulfilled True),
       kalshiRedeemTokens = (\<lambda>n m s. fulfilled True),
       parseDate = parse0,
       dateNow = (\<lambda>n. 0) \<rparr>"

definition cfg0 :: config where
  "cfg0 = \<lparr> takeProfit = 90, minTradeAmount = 10, maxTradeAmount = 1000,
            tradePercentage = 1 / 10, availableBalance = 1000 \<rparr>"

text \<open>The same venues with every Kalshi order rejected, and with Kalshi redemption failing.\<close>

definition env1 :: env where
  "env1 = env0\<lparr> kalshiBuyToken := (\<lambda>n m s a p. rejected) \<rparr>"

definition env2 :: env where
  "env2 = env0\<lparr> kalshiRedeemTokens := (\<lambda>n m s. fulfilled False) \<rparr>"

text \<open>The same venues with every Polymarket redemption rejected.\<close>

definition env3 :: env where
  "env3 = env0\<lparr> polyRedeemTokens := (\<lambda>n m oc. rejected) \<rparr>"

text \<open>The matched market of these listings.\<close>

definition md0 :: MarketData where
  "md0 =
     \<lparr> md_marketId = ''0xbtc15'', md_marketTitle = Some ''BTC 15m up or down'',
       md_endTime = Some ''2026-01-01T00:15:00Z'', md_isResolved = False,
       md_resolvedPrice = None,
       polymarket = mkPrice 40 63 (Some 38), kalshi = mkPrice 45 48 (Some 42) \<rparr>"

text \<open>The opportunity the detector finds on these quotes, and the position it leads to.\<close>

definition opp0 :: ArbitrageOpportunity where
  "opp0 =
     \<lparr> marketId = ''0xbtc15'', marketTitle = Some ''BTC 15m up or down'',
       opportunityType = poly_up_kalshi_down,
       polyUpPrice = 40, polyDownPrice = 63, kalshiUpPrice = 45, kalshiDownPrice = 48,
       totalCost = 88, profitPotential = Fin (150 / 11),
       polyBettedPrice = Some 38, kalshiBettedPrice = Some 42,
       opp_action = buy_poly_up_kalshi_down, opp_timestamp = 0 \<rparr>"

definition pos0 :: Position where
  "pos0 =
     \<lparr> pos_marketId = ''0xbtc15'', polyUp = 100, polyDown = 0, kalshiUp = 0,
       kalshiDown = 100, pos_totalCost = 88, expectedProfit = Fin (150 / 11),
       status = active \<rparr>"

section \<open>The detector's decision tree\<close>

lemmas detect_defs =
  detectOpportunity_def determineAction_def costUpDown_def costDownUp_def Let_def

lemmas example_defs = mkPrice_def mkMarket_def

text \<open>
  C1. When both combinations are eligible, the detector returns an opportunity whose
  action is: Polymarket up with Kalshi down if both betted prices are present and
  Kalshi's is the larger; Polymarket down with Kalshi up if Polymarket's is the larger;
  and, if the betted prices are equal or one is absent, the combination of lower cost
  (Polymarket down with Kalshi up when the two costs are equal).
\<close>

theorem detect_both_eligible:
  assumes "costUpDown m < T" and "costDownUp m < T"
  shows
    "(\<forall>sA sB. bettedPrice (polymarket m) = Some sA \<and> bettedPrice (kalshi m) = Some sB \<and> sB > sA
        \<longrightarrow> (\<exists>opp. detectOpportunity T now m = Some opp \<and>
                   opp_action opp = buy_poly_up_kalshi_down))
     \<and> (\<forall>sA sB. bettedPrice (polymarket m) = Some sA \<and> bettedPrice (kalshi m) = Some sB \<and> sA > sB
        \<longrightarrow> (\<exists>opp. detectOpportunity T now m = Some opp \<and>
                   opp_action opp = buy_poly_down_kalshi_up))
     \<and> (bettedPrice (polymarket m) = bettedPrice (kalshi m)
          \<or> bettedPrice (polymarket m) = None \<or> bettedPrice (kalshi m) = None
        \<longrightarrow> (\<exists>opp. detectOpportunity T now m = Some opp \<and>
                   opp_action opp =
                     (if costUpDown m < costDownUp m then buy_poly_up_kalshi_down
                      else buy_poly_down_kalshi_up) \<and>
                   actionCost m (opp_action opp) = Some (min (costUpDown m) (costDownUp m))))"
  using assms by (auto simp: detect_defs split: option.splits)

theorem detect_both_eligible_witness:
  "(\<exists>opp. detectOpportunity 90 0
             (mkMarket (mkPrice 40 42 (Some 38)) (mkPrice 45 45 (Some 42))) = Some opp
          \<and> opp_action opp = buy_poly_up_kalshi_down)
   \<and> (\<exists>opp. detectOpportunity 90 0
             (mkMarket (mkPrice 40 42 (Some 42)) (mkPrice 45 45 (Some 38))) = Some opp
          \<and> opp_action opp = buy_poly_down_kalshi_up)
   \<and> (\<exists>opp. detectOpportunity 90 0
             (mkMarket (mkPrice 40 42 None) (mkPrice 45 45 None)) = Some opp
          \<and> opp_action opp = buy_poly_up_kalshi_down)"
  using detect_both_eligible
          [of "mkMarket (mkPrice 40 42 (Some 38)) (mkPrice 45 45 (Some 42))" 90 0]
        detect_both_eligible
          [of "mkMarket (mkPrice 40 42 (Some 42)) (mkPrice 45 45 (Some 38))" 90 0]
        detect_both_eligible
          [of "mkMarket (mkPrice 40 42 None) (mkPrice 45 45 None)" 90 0]
  by (auto simp add: example_defs costUpDown_def costDownUp_def)

text \<open>
  C2. When only Polymarket up with Kalshi down is eligible, the detector returns that
  action if both betted prices are present and Polymarket's is strictly the smaller, and
  returns no opportunity otherwise; when only Polymarket down with Kalshi up is eligible,
  it returns that action if both are present and Polymarket's is strictly the larger, and
  no opportunity otherwise.
\<close>

theorem detect_single_eligible:
  "(costUpDown m < T \<and> T \<le> costDownUp m \<longrightarrow>
      (if \<exists>sA sB. bettedPrice (polymarket m) = Some sA \<and> bettedPrice (kalshi m) = Some sB
                   \<and> sA < sB
       then \<exists>opp. detectOpportunity T now m = Some opp \<and>
                  opp_action opp = buy_poly_up_kalshi_down
       else detectOpportunity T now m = None))
   \<and> (T \<le> costUpDown m \<and> costDownUp m < T \<longrightarrow>
      (if \<exists>sA sB. bettedPrice (polymarket m) = Some sA \<and> bettedPrice (kalshi m) = Some sB
                   \<and> sA > sB
       then \<exists>opp. detectOpportunity T now m = Some opp \<and>
                  opp_action opp = buy_poly_down_kalshi_up
       else detectOpportunity T now m = None))"
  by (auto simp: detect_defs split: option.splits)

theorem detect_single_eligible_witness:
  "(\<exists>opp. detectOpportunity 90 0
             (mkMarket (mkPrice 40 63 (Some 38)) (mkPrice 45 48 (Some 42))) = Some opp
          \<and> opp_action opp = buy_poly_up_kalshi_down)
   \<and> detectOpportunity 90 0 (mkMarket (mkPrice 40 63 None) (mkPrice 45 48 None)) = None
   \<and> (\<exists>opp. detectOpportunity 90 0
             (mkMarket (mkPrice 63 40 (Some 42)) (mkPrice 48 45 (Some 38))) = Some opp
          \<and> opp_action opp = buy_poly_down_kalshi_up)
   \<and> detectOpportunity 90 0
        (mkMarket (mkPrice 63 40 (Some 38)) (mkPrice 48 45 (Some 42))) = None"
  using detect_single_eligible
          [of "mkMarket (mkPrice 40 63 (Some 38)) (mkPrice 45 48 (Some 42))" 90 0]
        detect_single_eligible
          [of "mkMarket (mkPrice 40 63 None) (mkPrice 45 48 None)" 90 0]
        detect_single_eligible
          [of "mkMarket (mkPrice 63 40 (Some 42)) (mkPrice 48 45 (Some 38))" 90 0]
        detect_single_eligible
          [of "mkMarket (mkPrice 63 40 (Some 38)) (mkPrice 48 45 (Some 42))" 90 0]
  by (auto simp add: example_defs costUpDown_def costDownUp_def)

text \<open>
  C3. When neither combination costs less than the threshold, the detector returns no
  opportunity, whatever the betted prices are.
\<close>

theorem detect_none_eligible:
  "T \<le> costUpDown m \<Longrightarrow> T \<le> costDownUp m \<Longrightarrow> detectOpportunity T now m = None"
  by (simp add: detect_defs)

theorem detect_none_eligible_witness:
  "detectOpportunity 90 0 (mkMarket (mkPrice 50 50 (Some 10)) (mkPrice 50 40 (Some 90))) = None"
  using detect_none_eligible
          [of 90 "mkMarket (mkPrice 50 50 (Some 10)) (mkPrice 50 40 (Some 90))" 0]
  by (simp add: example_defs costUpDown_def costDownUp_def)

section \<open>The profit metric\<close>







section \<open>The market matcher\<close>

lemma js_includes_iff: "js_includes s sub \<longleftrightarrow> (\<exists>a b. s = a @ sub @ b)"
proof (induction s)
  case Nil
  then show ?case by auto
next
  case (Cons c cs)
  have pre: "take (length sub) (c # cs) = sub \<longleftrightarrow> (\<exists>b. c # cs = sub @ b)"
  proof
    assume "take (length sub) (c # cs) = sub"
    then have "c # cs = sub @ drop (length sub) (c # cs)"
      by (metis append_take_drop_id)
    then show "\<exists>b. c # cs = sub @ b" ..
  next
    assume "\<exists>b. c # cs = sub @ b"
    then show "take (length sub) (c # cs) = sub" by auto
  qed
  have "(\<exists>a b. c # cs = a @ sub @ b) \<longleftrightarrow>
        (\<exists>b. c # cs = sub @ b) \<or> (\<exists>a b. cs = a @ sub @ b)"
  proof
    assume "\<exists>a b. c # cs = a @ sub @ b"
    then obtain a b where ab: "c # cs = a @ sub @ b" by blast
    show "(\<exists>b. c # cs = sub @ b) \<or> (\<exists>a b. cs = a @ sub @ b)"
    proof (cases a)
      case Nil
      with ab show ?thesis by auto
    next
      case (Cons x a')
      with ab have "cs = a' @ sub @ b" by simp
      then show ?thesis by blast
    qed
  next
    assume "(\<exists>b. c # cs = sub @ b) \<or> (\<exists>a b. cs = a @ sub @ b)"
    then show "\<exists>a b. c # cs = a @ sub @ b"
    proof
      assume "\<exists>b. c # cs = sub @ b"
      then obtain b where "c # cs = [] @ sub @ b" by auto
      then show ?thesis by blast
    next
      assume "\<exists>a b. cs = a @ sub @ b"
      then obtain a b where "c # cs = (c # a) @ sub @ b" by auto
      then show ?thesis by blast
    qed
  qed
  with pre Cons show ?case by simp
qed

lemma isMatch_iff:
  "isMatch parse pm k \<longleftrightarrow>
     (\<exists>p q s. getTime parse (js_or (endDate pm) (end_time pm)) = Some p \<and>
              getTime parse (expiration_time k) = Some q \<and> \<bar>p - q\<bar> < 60000 \<and>
              series_ticker k = Some s \<and> (\<exists>a b. s = a @ ''BTC-15M'' @ b))"
  by (auto simp: isMatch_def Let_def js_includes_iff split: option.splits)

lemma find_matching_None:
  "findMatchingKalshiMarket parse pm ks = None \<longleftrightarrow> (\<forall>k \<in> set ks. \<not> isMatch parse pm k)"
  by (induction ks) auto

lemma find_matching_Some:
  "findMatchingKalshiMarket parse pm ks = Some k \<longleftrightarrow>
     (\<exists>i < length ks. k = ks ! i \<and> isMatch parse pm (ks ! i) \<and>
        (\<forall>j < i. \<not> isMatch parse pm (ks ! j)))"
proof (induction ks)
  case Nil
  then show ?case by simp
next
  case (Cons x xs)
  show ?case
  proof (cases "isMatch parse pm x")
    case True
    have "(\<exists>i < length (x # xs). k = (x # xs) ! i \<and> isMatch parse pm ((x # xs) ! i) \<and>
        (\<forall>j < i. \<not> isMatch parse pm ((x # xs) ! j))) \<longleftrightarrow> k = x"
    proof
      assume "\<exists>i < length (x # xs). k = (x # xs) ! i \<and> isMatch parse pm ((x # xs) ! i) \<and>
        (\<forall>j < i. \<not> isMatch parse pm ((x # xs) ! j))"
      then obtain i where i: "k = (x # xs) ! i" "\<forall>j < i. \<not> isMatch parse pm ((x # xs) ! j)"
        by blast
      have "i = 0"
      proof (rule ccontr)
        assume "i \<noteq> 0"
        then have "0 < i" by simp
        with i(2) have "\<not> isMatch parse pm ((x # xs) ! 0)" by blast
        with True show False by simp
      qed
      with i(1) show "k = x" by simp
    next
      assume "k = x"
      with True show "\<exists>i < length (x # xs). k = (x # xs) ! i \<and>
        isMatch parse pm ((x # xs) ! i) \<and> (\<forall>j < i. \<not> isMatch parse pm ((x # xs) ! j))"
        by (intro exI [of _ 0]) simp
    qed
    with True show ?thesis by auto
  next
    case False
    have "(\<exists>i < length (x # xs). k = (x # xs) ! i \<and> isMatch parse pm ((x # xs) ! i) \<and>
        (\<forall>j < i. \<not> isMatch parse pm ((x # xs) ! j))) \<longleftrightarrow>
      (\<exists>i < length xs. k = xs ! i \<and> isMatch parse pm (xs ! i) \<and>
        (\<forall>j < i. \<not> isMatch parse pm (xs ! j)))" (is "?L \<longleftrightarrow> ?R")
    proof
      assume ?L
      then obtain i where i: "i < length (x # xs)" "k = (x # xs) ! i"
        "isMatch parse pm ((x # xs) ! i)" "\<forall>j < i. \<not> isMatch parse pm ((x # xs) ! j)"
        by blast
      with False obtain i' where i': "i = Suc i'" by (cases i) auto
      have "\<forall>j < i'. \<not> isMatch parse pm (xs ! j)"
      proof (intro allI impI)
        fix j assume "j < i'"
        then have "Suc j < i" using i' by simp
        with i(4) have "\<not> isMatch parse pm ((x # xs) ! Suc j)" by blast
        then show "\<not> isMatch parse pm (xs ! j)" by simp
      qed
      with i i' show ?R by (intro exI [of _ i']) simp
    next
      assume ?R
      then obtain i where i: "i < length xs" "k = xs ! i"
        "isMatch parse pm (xs ! i)" "\<forall>j < i. \<not> isMatch parse pm (xs ! j)"
        by blast
      have "\<forall>j < Suc i. \<not> isMatch parse pm ((x # xs) ! j)"
      proof (intro allI impI)
        fix j assume "j < Suc i"
        then show "\<not> isMatch parse pm ((x # xs) ! j)"
          using False i(4) by (cases j) auto
      qed
      with i show ?L by (intro exI [of _ "Suc i"]) simp
    qed
    with False Cons show ?thesis by simp
  qed
qed

lemmas market_defs = pm0_def kA_def kB_def kC_def kD_def mkKalshi_def parse0_def

lemma find_matching_example:
  "findMatchingKalshiMarket parse0 pm0 [kA, kB, kC, kD] = Some kC"
  by (simp add: market_defs isMatch_def getTime_def js_or_def)

text \<open>
  C9. The matcher returns the first Kalshi market of the list, in list order, whose
  close time is less than 60000 milliseconds from the Polymarket close time and whose
  series ticker contains \<open>BTC-15M\<close>; it returns nothing exactly when no market of the
  list passes both tests. A comparison with an invalid date or an absent series ticker
  fails the test. The result is at most one market, and an earlier candidate wins over
  a later one whatever the titles or the time differences are.
\<close>

theorem find_matching_first_in_tolerance:
  "(case findMatchingKalshiMarket parse pm ks of
      None \<Rightarrow> \<forall>k \<in> set ks. \<not> isMatch parse pm k
    | Some k \<Rightarrow>
        \<exists>i < length ks. k = ks ! i \<and> isMatch parse pm (ks ! i) \<and>
          (\<forall>j < i. \<not> isMatch parse pm (ks ! j)))
   \<and> (\<forall>k. isMatch parse pm k \<longleftrightarrow>
         (\<exists>p q s. getTime parse (js_or (endDate pm) (end_time pm)) = Some p \<and>
                  getTime parse (expiration_time k) = Some q \<and> \<bar>p - q\<bar> < 60000 \<and>
                  series_ticker k = Some s \<and> (\<exists>a b. s = a @ ''BTC-15M'' @ b)))"
proof (rule conjI)
  show "case findMatchingKalshiMarket parse pm ks of
      None \<Rightarrow> \<forall>k \<in> set ks. \<not> isMatch parse pm k
    | Some k \<Rightarrow>
        \<exists>i < length ks. k = ks ! i \<and> isMatch parse pm (ks ! i) \<and>
          (\<forall>j < i. \<not> isMatch parse pm (ks ! j))"
  proof (cases "findMatchingKalshiMarket parse pm ks")
    case None
    then show ?thesis using find_matching_None [of parse pm ks] by simp
  next
    case (Some k)
    then show ?thesis using find_matching_Some [of parse pm ks k] by simp
  qed
  show "\<forall>k. isMatch parse pm k \<longleftrightarrow>
         (\<exists>p q s. getTime parse (js_or (endDate pm) (end_time pm)) = Some p \<and>
                  getTime parse (expiration_time k) = Some q \<and> \<bar>p - q\<bar> < 60000 \<and>
                  series_ticker k = Some s \<and> (\<exists>a b. s = a @ ''BTC-15M'' @ b))"
    using isMatch_iff by blast
qed

theorem find_matching_first_in_tolerance_witness:
  "findMatchingKalshiMarket parse0 pm0 [kA, kB, kC, kD] = Some kC
   \<and> isMatch parse0 pm0 kD \<and> \<not> isMatch parse0 pm0 kA \<and> \<not> isMatch parse0 pm0 kB
   \<and> findMatchingKalshiMarket parse0 pm0 [kA, kB] = None"
proof -
  have e: "findMatchingKalshiMarket parse0 pm0 [kA, kB] = None"
    by (simp add: market_defs isMatch_def getTime_def js_or_def)
  have d: "isMatch parse0 pm0 kD"
    by (simp add: market_defs isMatch_def getTime_def js_or_def)
  note t = find_matching_first_in_tolerance
    [where parse = parse0 and pm = pm0 and ks = "[kA, kB]", THEN conjunct1,
     unfolded e option.case]
  from t have "\<not> isMatch parse0 pm0 kA \<and> \<not> isMatch parse0 pm0 kB" by simp
  with find_matching_example d e show ?thesis by simp
qed

section \<open>The executor\<close>

lemma execute_out_of_band:
  "amount < minTradeAmount cfg \<or> amount > maxTradeAmount cfg \<Longrightarrow>
     executeArbitrage cfg e opp amount tr = (None, tr)"
  by (simp add: executeArbitrage_def)

lemma execute_up_down:
  assumes "minTradeAmount cfg \<le> amount" "amount \<le> maxTradeAmount cfg"
    and "opp_action opp = buy_poly_up_kalshi_down"
  shows "executeArbitrage cfg e opp amount tr =
    (case (polyBuyToken e (length tr) (marketId opp) YES amount (polyUpPrice opp),
           kalshiBuyToken e (Suc (length tr)) (marketId opp) no amount (kalshiDownPrice opp)) of
       (fulfilled t1, fulfilled t2) \<Rightarrow>
         Some \<lparr> pos_marketId = marketId opp, polyUp = amount, polyDown = 0, kalshiUp = 0,
                kalshiDown = amount, pos_totalCost = totalCost opp * amount / 100,
                expectedProfit = js_over (js_times (profitPotential opp) amount) 100,
                status = active \<rparr>
     | _ \<Rightarrow> None,
     tr @ [poly_buyToken (marketId opp) YES amount (polyUpPrice opp),
           kalshi_buyToken (marketId opp) no amount (kalshiDownPrice opp)])"
  using assms
  by (simp add: executeArbitrage_def Let_def tradeOf_def not_less split: settled.splits)

lemma execute_down_up:
  assumes "minTradeAmount cfg \<le> amount" "amount \<le> maxTradeAmount cfg"
    and "opp_action opp = buy_poly_down_kalshi_up"
  shows "executeArbitrage cfg e opp amount tr =
    (case (polyBuyToken e (length tr) (marketId opp) NO amount (polyDownPrice opp),
           kalshiBuyToken e (Suc (length tr)) (marketId opp) yes amount (kalshiUpPrice opp)) of
       (fulfilled t1, fulfilled t2) \<Rightarrow>
         Some \<lparr> pos_marketId = marketId opp, polyUp = 0, polyDown = amount, kalshiUp = amount,
                kalshiDown = 0, pos_totalCost = totalCost opp * amount / 100,
                expectedProfit = js_over (js_times (profitPotential opp) amount) 100,
                status = active \<rparr>
     | _ \<Rightarrow> None,
     tr @ [poly_buyToken (marketId opp) NO amount (polyDownPrice opp),
           kalshi_buyToken (marketId opp) yes amount (kalshiUpPrice opp)])"
  using assms
  by (simp add: executeArbitrage_def Let_def tradeOf_def not_less split: settled.splits)

text \<open>
  C8. An amount strictly below the minimum or strictly above the maximum makes
  \<open>executeArbitrage\<close> return no position and leave the trace of venue calls unchanged:
  no order is placed, and the model has no exceptional result. With a non-empty band, an
  amount equal to either bound passes the check: for an action other than \<open>skip\<close> the
  two orders are placed.
\<close>

theorem execute_rejects_out_of_band:
  "(amount < minTradeAmount cfg \<or> amount > maxTradeAmount cfg \<longrightarrow>
      executeArbitrage cfg e opp amount tr = (None, tr))
   \<and> (minTradeAmount cfg \<le> maxTradeAmount cfg \<and> opp_action opp \<noteq> skip \<and>
       (amount = minTradeAmount cfg \<or> amount = maxTradeAmount cfg) \<longrightarrow>
      length (snd (executeArbitrage cfg e opp amount tr)) = length tr + 2 \<and>
      (\<exists>c1 c2. snd (executeArbitrage cfg e opp amount tr) = tr @ [c1, c2] \<and>
         c1 \<in> {poly_buyToken (marketId opp) YES amount (polyUpPrice opp),
                poly_buyToken (marketId opp) NO amount (polyDownPrice opp)} \<and>
         c2 \<in> {kalshi_buyToken (marketId opp) no amount (kalshiDownPrice opp),
                kalshi_buyToken (marketId opp) yes amount (kalshiUpPrice opp)}))"
proof (rule conjI; rule impI)
  assume "amount < minTradeAmount cfg \<or> amount > maxTradeAmount cfg"
  then show "executeArbitrage cfg e opp amount tr = (None, tr)"
    by (rule execute_out_of_band)
next
  assume h: "minTradeAmount cfg \<le> maxTradeAmount cfg \<and> opp_action opp \<noteq> skip \<and>
       (amount = minTradeAmount cfg \<or> amount = maxTradeAmount cfg)"
  then have band: "minTradeAmount cfg \<le> amount" "amount \<le> maxTradeAmount cfg" by auto
  from h consider "opp_action opp = buy_poly_up_kalshi_down"
    | "opp_action opp = buy_poly_down_kalshi_up"
    by (cases "opp_action opp") auto
  then have "\<exists>c1 c2. snd (executeArbitrage cfg e opp amount tr) = tr @ [c1, c2] \<and>
         c1 \<in> {poly_buyToken (marketId opp) YES amount (polyUpPrice opp),
                poly_buyToken (marketId opp) NO amount (polyDownPrice opp)} \<and>
         c2 \<in> {kalshi_buyToken (marketId opp) no amount (kalshiDownPrice opp),
                kalshi_buyToken (marketId opp) yes amount (kalshiUpPrice opp)}"
  proof cases
    case 1
    show ?thesis by (simp add: execute_up_down [OF band 1])
  next
    case 2
    show ?thesis by (simp add: execute_down_up [OF band 2])
  qed
  then show "length (snd (executeArbitrage cfg e opp amount tr)) = length tr + 2 \<and>
      (\<exists>c1 c2. snd (executeArbitrage cfg e opp amount tr) = tr @ [c1, c2] \<and>
         c1 \<in> {poly_buyToken (marketId opp) YES amount (polyUpPrice opp),
                poly_buyToken (marketId opp) NO amount (polyDownPrice opp)} \<and>
         c2 \<in> {kalshi_buyToken (marketId opp) no amount (kalshiDownPrice opp),
                kalshi_buyToken (marketId opp) yes amount (kalshiUpPrice opp)})"
    by auto
qed

theorem execute_rejects_out_of_band_witness:
  "executeArbitrage cfg0 env0 opp0 5 [] = (None, [])
   \<and> executeArbitrage cfg0 env0 opp0 2000 [] = (None, [])
   \<and> length (snd (executeArbitrage cfg0 env0 opp0 10 [])) = 2
   \<and> length (snd (executeArbitrage cfg0 env0 opp0 1000 [])) = 2"
  using execute_rejects_out_of_band
          [where cfg = cfg0 and e = env0 and opp = opp0 and amount = 5 and tr = "[]"]
        execute_rejects_out_of_band
          [where cfg = cfg0 and e = env0 and opp = opp0 and amount = 2000 and tr = "[]"]
        execute_rejects_out_of_band
          [where cfg = cfg0 and e = env0 and opp = opp0 and amount = 10 and tr = "[]"]
        execute_rejects_out_of_band
          [where cfg = cfg0 and e = env0 and opp = opp0 and amount = 1000 and tr = "[]"]
  by (simp add: cfg0_def opp0_def)

text \<open>
  C5. For an amount inside the band and an action other than \<open>skip\<close>, both orders are
  issued whatever their outcomes (the trace grows by exactly the Polymarket order and
  the Kalshi order, and nothing else, so no cancellation follows a failure), and
  \<open>executeArbitrage\<close> returns a position if and only if both orders are fulfilled; if
  either is rejected the result is no position.
\<close>

theorem execute_position_iff_both_legs:
  assumes "minTradeAmount cfg \<le> amount" and "amount \<le> maxTradeAmount cfg"
  shows
    "(opp_action opp = buy_poly_up_kalshi_down \<longrightarrow>
        snd (executeArbitrage cfg e opp amount tr) =
          tr @ [poly_buyToken (marketId opp) YES amount (polyUpPrice opp),
                kalshi_buyToken (marketId opp) no amount (kalshiDownPrice opp)]
        \<and> ((\<exists>position. fst (executeArbitrage cfg e opp amount tr) = Some position) \<longleftrightarrow>
             (\<exists>t1 t2.
                polyBuyToken e (length tr) (marketId opp) YES amount (polyUpPrice opp)
                  = fulfilled t1 \<and>
                kalshiBuyToken e (length tr + 1) (marketId opp) no amount (kalshiDownPrice opp)
                  = fulfilled t2))
        \<and> (polyBuyToken e (length tr) (marketId opp) YES amount (polyUpPrice opp) = rejected
             \<or> kalshiBuyToken e (length tr + 1) (marketId opp) no amount (kalshiDownPrice opp)
                  = rejected
            \<longrightarrow> fst (executeArbitrage cfg e opp amount tr) = None))
     \<and> (opp_action opp = buy_poly_down_kalshi_up \<longrightarrow>
        snd (executeArbitrage cfg e opp amount tr) =
          tr @ [poly_buyToken (marketId opp) NO amount (polyDownPrice opp),
                kalshi_buyToken (marketId opp) yes amount (kalshiUpPrice opp)]
        \<and> ((\<exists>position. fst (executeArbitrage cfg e opp amount tr) = Some position) \<longleftrightarrow>
             (\<exists>t1 t2.
                polyBuyToken e (length tr) (marketId opp) NO amount (polyDownPrice opp)
                  = fulfilled t1 \<and>
                kalshiBuyToken e (length tr + 1) (marketId opp) yes amount (kalshiUpPrice opp)
                  = fulfilled t2))
        \<and> (polyBuyToken e (length tr) (marketId opp) NO amount (polyDownPrice opp) = rejected
             \<or> kalshiBuyToken e (length tr + 1) (marketId opp) yes amount (kalshiUpPrice opp)
                  = rejected
            \<longrightarrow> fst (executeArbitrage cfg e opp amount tr) = None))"
proof -
  have ud: "executeArbitrage cfg e opp amount tr = r \<Longrightarrow> ?thesis" for r
    using execute_up_down [OF assms, of opp e tr] execute_down_up [OF assms, of opp e tr]
    by (cases "polyBuyToken e (length tr) (marketId opp) YES amount (polyUpPrice opp)";
        cases "kalshiBuyToken e (Suc (length tr)) (marketId opp) no amount (kalshiDownPrice opp)";
        cases "polyBuyToken e (length tr) (marketId opp) NO amount (polyDownPrice opp)";
        cases "kalshiBuyToken e (Suc (length tr)) (marketId opp) yes amount (kalshiUpPrice opp)")
       simp_all
  from ud [OF refl] show ?thesis .
qed

lemma execute_example:
  "executeArbitrage cfg0 env0 opp0 100 tr =
     (Some pos0, tr @ [poly_buyToken ''0xbtc15'' YES 100 40,
                       kalshi_buyToken ''0xbtc15'' no 100 48])"
  by (simp add: executeArbitrage_def cfg0_def env0_def opp0_def pos0_def tradeOf_def Let_def
      js_div_def)

theorem execute_position_iff_both_legs_witness:
  "executeArbitrage cfg0 env0 opp0 100 [] =
     (Some pos0, [poly_buyToken ''0xbtc15'' YES 100 40, kalshi_buyToken ''0xbtc15'' no 100 48])
   \<and> executeArbitrage cfg0 env1 opp0 100 [] =
     (None, [poly_buyToken ''0xbtc15'' YES 100 40, kalshi_buyToken ''0xbtc15'' no 100 48])"
proof -
  have b: "minTradeAmount cfg0 \<le> 100" "100 \<le> maxTradeAmount cfg0"
    by (simp_all add: cfg0_def)
  have a: "opp_action opp0 = buy_poly_up_kalshi_down"
    by (simp add: opp0_def)
  have r: "kalshiBuyToken env1 (length ([] :: call list) + 1) (marketId opp0) no 100
             (kalshiDownPrice opp0) = rejected"
    by (simp add: env1_def)
  note t = execute_position_iff_both_legs
             [OF b, where opp = opp0 and e = env1 and tr = "[]", THEN conjunct1, rule_format, OF a]
  from t r have "fst (executeArbitrage cfg0 env1 opp0 100 []) = None"
    by blast
  moreover from t have "snd (executeArbitrage cfg0 env1 opp0 100 []) =
      [poly_buyToken ''0xbtc15'' YES 100 40, kalshi_buyToken ''0xbtc15'' no 100 48]"
    by (simp add: opp0_def)
  ultimately have "executeArbitrage cfg0 env1 opp0 100 [] =
      (None, [poly_buyToken ''0xbtc15'' YES 100 40, kalshi_buyToken ''0xbtc15'' no 100 48])"
    by (simp add: prod_eq_iff)
  with execute_example [of "[]"] show ?thesis by simp
qed

section \<open>The redeemer\<close>

lemma redeemPosition_cases:
  "fst (redeemPosition e p tr) =
     (if \<forall>r \<in> set (fst (redeemRequests e p tr)). r = fulfilled True
      then p\<lparr>status := redeemed\<rparr> else p)"
  by (simp add: redeemPosition_def Let_def split_beta list_all_iff)

lemma checkPosition_inactive:
  "status p \<noteq> active \<Longrightarrow> checkPosition e p tr = (p, tr)"
  by (simp add: checkPosition_def)

lemma checkPosition_active:
  assumes "status p = active"
  shows "fst (checkPosition e p tr) =
     (if polyIsMarketResolved e (length tr) (pos_marketId p) = fulfilled True \<and>
         kalshiIsMarketResolved e (Suc (length tr)) (pos_marketId p) = fulfilled True \<and>
         (\<forall>r \<in> set (fst (redeemRequests e p
                  (tr @ [poly_isMarketResolved (pos_marketId p),
                         kalshi_isMarketResolved (pos_marketId p)]))).
             r = fulfilled True)
      then p\<lparr>status := redeemed\<rparr> else p)"
  using assms
  by (auto simp add: checkPosition_def Let_def redeemPosition_cases split: settled.splits)

lemma checkAndRedeem_length:
  "length (fst (checkAndRedeem e ps tr)) = length ps"
  by (induction ps arbitrary: tr) (simp_all add: split_beta Let_def)

lemma checkAndRedeem_nth:
  "i < length ps \<Longrightarrow>
     fst (checkAndRedeem e ps tr) ! i =
       fst (checkPosition e (ps ! i) (snd (checkAndRedeem e (take i ps) tr)))"
proof (induction ps arbitrary: tr i)
  case Nil
  then show ?case by simp
next
  case (Cons p ps)
  show ?case
  proof (cases i)
    case 0
    then show ?thesis by (simp add: split_beta Let_def)
  next
    case (Suc j)
    with Cons.prems have "j < length ps" by simp
    from Cons.IH [OF this, of "snd (checkPosition e p tr)"] Suc
    show ?thesis by (simp add: split_beta Let_def)
  qed
qed

lemma redeemRequests_trace:
  "snd (redeemRequests e p tr) =
     tr @ (if polyUp p > 0 then [poly_redeemTokens (pos_marketId p) YES] else [])
        @ (if polyDown p > 0 then [poly_redeemTokens (pos_marketId p) NO] else [])
        @ (if kalshiUp p > 0 then [kalshi_redeemTokens (pos_marketId p) yes] else [])
        @ (if kalshiDown p > 0 then [kalshi_redeemTokens (pos_marketId p) no] else [])"
  by (simp add: redeemRequests_def Let_def)

lemma redeemRequests_count:
  "length (fst (redeemRequests e p tr)) + length tr = length (snd (redeemRequests e p tr))"
  by (simp add: redeemRequests_def Let_def)

lemma redeemRequests_all_true:
  "(\<forall>r \<in> set (fst (redeemRequests e p tr)). r = fulfilled True) \<longleftrightarrow>
     (0 < polyUp p \<longrightarrow>
        polyRedeemTokens e (length tr) (pos_marketId p) YES = fulfilled True)
     \<and> (0 < polyDown p \<longrightarrow>
        polyRedeemTokens e (length tr + (if 0 < polyUp p then 1 else 0))
          (pos_marketId p) NO = fulfilled True)
     \<and> (0 < kalshiUp p \<longrightarrow>
        kalshiRedeemTokens e
          (length tr + (if 0 < polyUp p then 1 else 0) + (if 0 < polyDown p then 1 else 0))
          (pos_marketId p) yes = fulfilled True)
     \<and> (0 < kalshiDown p \<longrightarrow>
        kalshiRedeemTokens e
          (length tr + (if 0 < polyUp p then 1 else 0) + (if 0 < polyDown p then 1 else 0)
             + (if 0 < kalshiUp p then 1 else 0))
          (pos_marketId p) no = fulfilled True)"
  by (cases "0 < polyUp p"; cases "0 < polyDown p"; cases "0 < kalshiUp p";
      cases "0 < kalshiDown p")
     (auto simp add: redeemRequests_def Let_def)

lemma checkPosition_trace_active:
  assumes "status p = active"
  shows "snd (checkPosition e p tr) =
     tr @ [poly_isMarketResolved (pos_marketId p), kalshi_isMarketResolved (pos_marketId p)]
        @ (if polyIsMarketResolved e (length tr) (pos_marketId p) = fulfilled True \<and>
              kalshiIsMarketResolved e (length tr + 1) (pos_marketId p) = fulfilled True
           then (if 0 < polyUp p then [poly_redeemTokens (pos_marketId p) YES] else [])
              @ (if 0 < polyDown p then [poly_redeemTokens (pos_marketId p) NO] else [])
              @ (if 0 < kalshiUp p then [kalshi_redeemTokens (pos_marketId p) yes] else [])
              @ (if 0 < kalshiDown p then [kalshi_redeemTokens (pos_marketId p) no] else [])
           else [])"
  using assms
  by (auto simp add: checkPosition_def Let_def redeemPosition_def split_beta
      redeemRequests_trace split: settled.splits)

lemma checkAndRedeem_take_Suc:
  "i < length ps \<Longrightarrow>
     snd (checkAndRedeem e (take (Suc i) ps) tr) =
       snd (checkPosition e (ps ! i) (snd (checkAndRedeem e (take i ps) tr)))"
proof (induction ps arbitrary: tr i)
  case Nil
  then show ?case by simp
next
  case (Cons p ps)
  show ?case
  proof (cases i)
    case 0
    then show ?thesis by (simp add: split_beta Let_def)
  next
    case (Suc j)
    with Cons.prems have "j < length ps" by simp
    from Cons.IH [OF this, of "snd (checkPosition e p tr)"] Suc
    show ?thesis by (simp add: split_beta Let_def)
  qed
qed

text \<open>
  C7. In a poll over the position list \<open>ps\<close>, the position at index \<open>i\<close> is processed
  at the trace \<open>t\<close> reached after the positions before it. It comes out unchanged or
  with its status set to \<open>redeemed\<close> and nothing else changed. A position that is not
  \<open>active\<close> (already \<open>redeemed\<close>, or \<open>expired\<close>) comes out unchanged and no venue
  is called for it. An active position comes out \<open>redeemed\<close> if and only if both
  venues answer the resolution check with true and, for every leg with a positive
  amount, the venue's answer to the redemption request of that leg is fulfilled with
  true; otherwise it stays \<open>active\<close>. The requests are issued in the order Polymarket
  YES, Polymarket NO, Kalshi yes, Kalshi no, one per leg with a positive amount, and only
  after both resolution checks answered true.
\<close>

theorem poll_redeems_only_on_success:
  assumes "i < length ps"
  shows
    "length (fst (checkAndRedeem e ps tr)) = length ps
     \<and> (fst (checkAndRedeem e ps tr) ! i = ps ! i
        \<or> fst (checkAndRedeem e ps tr) ! i = (ps ! i)\<lparr>status := redeemed\<rparr>)
     \<and> (status (ps ! i) \<noteq> active \<longrightarrow>
          fst (checkAndRedeem e ps tr) ! i = ps ! i
          \<and> snd (checkAndRedeem e (take (Suc i) ps) tr) = snd (checkAndRedeem e (take i ps) tr))
     \<and> (status (ps ! i) = active \<longrightarrow>
          (\<exists>t m. t = snd (checkAndRedeem e (take i ps) tr) \<and> m = pos_marketId (ps ! i) \<and>
             (status (fst (checkAndRedeem e ps tr) ! i) = redeemed \<longleftrightarrow>
                polyIsMarketResolved e (length t) m = fulfilled True
                \<and> kalshiIsMarketResolved e (length t + 1) m = fulfilled True
                \<and> (0 < polyUp (ps ! i) \<longrightarrow>
                     polyRedeemTokens e (length t + 2) m YES = fulfilled True)
                \<and> (0 < polyDown (ps ! i) \<longrightarrow>
                     polyRedeemTokens e
                       (length t + 2 + (if 0 < polyUp (ps ! i) then 1 else 0)) m NO
                       = fulfilled True)
                \<and> (0 < kalshiUp (ps ! i) \<longrightarrow>
                     kalshiRedeemTokens e
                       (length t + 2 + (if 0 < polyUp (ps ! i) then 1 else 0)
                          + (if 0 < polyDown (ps ! i) then 1 else 0)) m yes
                       = fulfilled True)
                \<and> (0 < kalshiDown (ps ! i) \<longrightarrow>
                     kalshiRedeemTokens e
                       (length t + 2 + (if 0 < polyUp (ps ! i) then 1 else 0)
                          + (if 0 < polyDown (ps ! i) then 1 else 0)
                          + (if 0 < kalshiUp (ps ! i) then 1 else 0)) m no
                       = fulfilled True))
             \<and> (status (fst (checkAndRedeem e ps tr) ! i) \<noteq> redeemed \<longrightarrow>
                  status (fst (checkAndRedeem e ps tr) ! i) = active)
             \<and> snd (checkAndRedeem e (take (Suc i) ps) tr) =
                 t @ [poly_isMarketResolved m, kalshi_isMarketResolved m]
                   @ (if polyIsMarketResolved e (length t) m = fulfilled True \<and>
                         kalshiIsMarketResolved e (length t + 1) m = fulfilled True
                      then (if 0 < polyUp (ps ! i) then [poly_redeemTokens m YES] else [])
                         @ (if 0 < polyDown (ps ! i) then [poly_redeemTokens m NO] else [])
                         @ (if 0 < kalshiUp (ps ! i) then [kalshi_redeemTokens m yes] else [])
                         @ (if 0 < kalshiDown (ps ! i) then [kalshi_redeemTokens m no] else [])
                      else [])))"
proof (cases "status (ps ! i) = active")
  case True
  let ?t = "snd (checkAndRedeem e (take i ps) tr)"
  let ?p = "ps ! i"
  have len: "length (?t @ [poly_isMarketResolved (pos_marketId ?p),
                           kalshi_isMarketResolved (pos_marketId ?p)]) = length ?t + 2"
    by simp
  note a = checkPosition_active [OF True, of e ?t]
  note b = redeemRequests_all_true
    [of e ?p "?t @ [poly_isMarketResolved (pos_marketId ?p),
                    kalshi_isMarketResolved (pos_marketId ?p)]", unfolded len]
  note c = checkPosition_trace_active [OF True, of e ?t]
  have r: "fst (checkAndRedeem e ps tr) ! i = fst (checkPosition e ?p ?t)"
    by (rule checkAndRedeem_nth [OF assms])
  have s: "snd (checkAndRedeem e (take (Suc i) ps) tr) = snd (checkPosition e ?p ?t)"
    by (rule checkAndRedeem_take_Suc [OF assms])
  have st: "status (fst (checkPosition e ?p ?t)) = redeemed \<longleftrightarrow>
      polyIsMarketResolved e (length ?t) (pos_marketId ?p) = fulfilled True \<and>
      kalshiIsMarketResolved e (Suc (length ?t)) (pos_marketId ?p) = fulfilled True \<and>
      (\<forall>r \<in> set (fst (redeemRequests e ?p
                  (?t @ [poly_isMarketResolved (pos_marketId ?p),
                         kalshi_isMarketResolved (pos_marketId ?p)]))).
             r = fulfilled True)"
    using a True by (auto split: if_splits)
  have na: "status (fst (checkPosition e ?p ?t)) \<noteq> redeemed \<longrightarrow>
      status (fst (checkPosition e ?p ?t)) = active"
    using a True by (auto split: if_splits)
  have d: "fst (checkPosition e ?p ?t) = ?p \<or>
           fst (checkPosition e ?p ?t) = ?p\<lparr>status := redeemed\<rparr>"
    using a by (auto split: if_splits)
  show ?thesis
    using True d na
    by (simp add: checkAndRedeem_length r s st b c)
next
  case False
  have r: "fst (checkAndRedeem e ps tr) ! i =
      fst (checkPosition e (ps ! i) (snd (checkAndRedeem e (take i ps) tr)))"
    by (rule checkAndRedeem_nth [OF assms])
  have s: "snd (checkAndRedeem e (take (Suc i) ps) tr) =
      snd (checkPosition e (ps ! i) (snd (checkAndRedeem e (take i ps) tr)))"
    by (rule checkAndRedeem_take_Suc [OF assms])
  from False show ?thesis
    by (simp add: checkAndRedeem_length r s checkPosition_inactive)
qed

lemma poll_example:
  "checkAndRedeem env0 [pos0] tr =
     ([pos0\<lparr>status := redeemed\<rparr>],
      tr @ [poly_isMarketResolved ''0xbtc15'', kalshi_isMarketResolved ''0xbtc15'',
            poly_redeemTokens ''0xbtc15'' YES, kalshi_redeemTokens ''0xbtc15'' no])"
  by (simp add: checkPosition_def redeemPosition_def redeemRequests_def env0_def pos0_def Let_def)

theorem poll_redeems_only_on_success_witness:
  "fst (checkAndRedeem env0 [pos0\<lparr>status := redeemed\<rparr>, pos0] []) =
     [pos0\<lparr>status := redeemed\<rparr>, pos0\<lparr>status := redeemed\<rparr>]
   \<and> fst (checkAndRedeem env2 [pos0\<lparr>status := redeemed\<rparr>, pos0] []) =
     [pos0\<lparr>status := redeemed\<rparr>, pos0]
   \<and> fst (checkAndRedeem env3 [pos0\<lparr>status := redeemed\<rparr>, pos0] []) =
     [pos0\<lparr>status := redeemed\<rparr>, pos0]
   \<and> snd (checkAndRedeem env3 [pos0\<lparr>status := redeemed\<rparr>, pos0] []) =
     [poly_isMarketResolved ''0xbtc15'', kalshi_isMarketResolved ''0xbtc15'',
      poly_redeemTokens ''0xbtc15'' YES, kalshi_redeemTokens ''0xbtc15'' no]"
proof -
  let ?ps = "[pos0\<lparr>status := redeemed\<rparr>, pos0]"
  have i0: "(0::nat) < length ?ps" and i1: "Suc 0 < length ?ps" by simp_all
  have f: "polyUp pos0 = 100" "polyDown pos0 = 0" "kalshiUp pos0 = 0" "kalshiDown pos0 = 100"
    "pos_marketId pos0 = ''0xbtc15''" "status pos0 = active"
    "status (pos0\<lparr>status := redeemed\<rparr>) = redeemed"
    by (simp_all add: pos0_def)
  have o0: "polyIsMarketResolved env0 n m = fulfilled True"
    "kalshiIsMarketResolved env0 n m = fulfilled True"
    "polyRedeemTokens env0 n m oc = fulfilled True"
    "kalshiRedeemTokens env0 n m sd = fulfilled True" for n m oc sd
    by (simp_all add: env0_def)
  have o2: "polyIsMarketResolved env2 n m = fulfilled True"
    "kalshiIsMarketResolved env2 n m = fulfilled True"
    "polyRedeemTokens env2 n m oc = fulfilled True"
    "kalshiRedeemTokens env2 n m sd = fulfilled False" for n m oc sd
    by (simp_all add: env2_def env0_def)
  have o3: "polyIsMarketResolved env3 n m = fulfilled True"
    "kalshiIsMarketResolved env3 n m = fulfilled True"
    "polyRedeemTokens env3 n m oc = rejected"
    "kalshiRedeemTokens env3 n m sd = fulfilled True" for n m oc sd
    by (simp_all add: env3_def env0_def)
  have t0: "snd (checkAndRedeem e [pos0\<lparr>status := redeemed\<rparr>] []) = []" for e
    by (simp add: checkPosition_def f)
  note w0 = poll_redeems_only_on_success [OF i0, where tr = "[]"]
  note w1 = poll_redeems_only_on_success [OF i1, where tr = "[]"]
  have len: "length (fst (checkAndRedeem e ?ps [])) = 2" for e
    using w0 [where e = e] by (simp del: checkAndRedeem.simps)
  have first: "fst (checkAndRedeem e ?ps []) ! 0 = pos0\<lparr>status := redeemed\<rparr>" for e
    using w0 [where e = e] by (simp add: f del: checkAndRedeem.simps)
  have whole: "fst (checkAndRedeem e ?ps []) = [pos0\<lparr>status := redeemed\<rparr>, x]"
    if "fst (checkAndRedeem e ?ps []) ! Suc 0 = x" for e x
    using len [of e] first [of e] that
    by (simp add: list_eq_iff_nth_eq less_Suc_eq numeral_2_eq_2 del: checkAndRedeem.simps)
  have shape: "fst (checkAndRedeem e ?ps []) ! Suc 0 = pos0
      \<or> fst (checkAndRedeem e ?ps []) ! Suc 0 = pos0\<lparr>status := redeemed\<rparr>" for e
    using w1 [where e = e] by (simp del: checkAndRedeem.simps)
  have r0: "status (fst (checkAndRedeem env0 ?ps []) ! Suc 0) = redeemed"
    using w1 [where e = env0] by (simp add: f o0 t0 del: checkAndRedeem.simps)
  have r2: "status (fst (checkAndRedeem env2 ?ps []) ! Suc 0) = active"
    using w1 [where e = env2] by (simp add: f o2 t0 del: checkAndRedeem.simps)
  have r3: "status (fst (checkAndRedeem env3 ?ps []) ! Suc 0) = active"
    using w1 [where e = env3] by (simp add: f o3 t0 del: checkAndRedeem.simps)
  have tr3: "snd (checkAndRedeem env3 ?ps []) =
     [poly_isMarketResolved ''0xbtc15'', kalshi_isMarketResolved ''0xbtc15'',
      poly_redeemTokens ''0xbtc15'' YES, kalshi_redeemTokens ''0xbtc15'' no]"
    using w1 [where e = env3] by (simp add: f o3 t0 del: checkAndRedeem.simps)
  have x0: "fst (checkAndRedeem env0 ?ps []) ! Suc 0 = pos0\<lparr>status := redeemed\<rparr>"
    using shape [of env0] r0 f(6) by auto
  have x2: "fst (checkAndRedeem env2 ?ps []) ! Suc 0 = pos0"
    using shape [of env2] r2 f(7) by auto
  have x3: "fst (checkAndRedeem env3 ?ps []) ! Suc 0 = pos0"
    using shape [of env3] r3 f(7) by auto
  from whole [OF x0] whole [OF x2] whole [OF x3] tr3 show ?thesis
    by (simp del: checkAndRedeem.simps)
qed

section \<open>Market ids at the venue boundary\<close>
















section \<open>A run on the concrete venues\<close>

lemma detect_example: "detectOpportunity 90 0 md0 = Some opp0"
  by (simp add: detect_defs mkPrice_def opp0_def js_div_def md0_def)

lemma matchMarkets_example:
  "matchMarkets env0 tr =
     ([md0],
      tr @ [poly_getActiveBTCMarkets, kalshi_getActiveBTCMarkets,
            poly_getMarketPrices ''0xbtc15'', kalshi_getMarketPrices ''KXBTC-C''])"
proof -
  have ml: "matchLoop env0 [pm0] [kA, kB, kC, kD] [] tr' =
      (Some [md0], tr' @ [poly_getMarketPrices ''0xbtc15'', kalshi_getMarketPrices ''KXBTC-C''])"
    for tr'
  proof -
    have pd: "parseDate env0 = parse0" by (simp add: env0_def)
    have pr: "polyMarketPrices env0 n m = fulfilled (mkPrice 40 63 (Some 38))"
      "kalshiMarketPrices env0 n m = fulfilled (mkPrice 45 48 (Some 42))" for n m
      by (simp_all add: env0_def)
    have md: "\<lparr> md_marketId = ''0xbtc15'',
                md_marketTitle = js_or (question pm0) (title pm0),
                md_endTime = js_or (endDate pm0) (expiration_time kC),
                md_isResolved = (resolved pm0 \<or> km_status kC = ''resolved''),
                md_resolvedPrice = js_or_num (resolvedPrice pm0) (betted_price kC),
                polymarket = mkPrice 40 63 (Some 38),
                kalshi = mkPrice 45 48 (Some 42) \<rparr> = md0"
      by (simp add: market_defs js_or_def js_or_num_def md0_def)
    have ids: "pm_id pm0 = ''0xbtc15''" "ticker kC = ''KXBTC-C''"
      by (simp_all add: market_defs)
    show ?thesis
      by (simp add: pd find_matching_example pr md ids Let_def
          del: findMatchingKalshiMarket.simps)
  qed
  have ls: "polyActiveBTCMarkets env0 n = fulfilled [pm0]"
    "kalshiActiveBTCMarkets env0 n = fulfilled [kA, kB, kC, kD]" for n
    by (simp_all add: env0_def)
  show ?thesis
    by (simp add: matchMarkets_def Let_def ls ml del: matchLoop.simps)
qed

lemma amount_example: "calculateTradeAmount cfg0 opp (availableBalance cfg0) = 100"
  by (simp add: calculateTradeAmount_def cfg0_def)

lemma tick_example:
  assumes "(case find (\<lambda>p. pos_marketId p = ''0xbtc15'') ps of
              Some p \<Rightarrow> status p = active | None \<Rightarrow> False) = False"
  shows "scanAndTrade cfg0 env0 ps tr =
     (ps @ [pos0],
      tr @ [poly_getActiveBTCMarkets, kalshi_getActiveBTCMarkets,
            poly_getMarketPrices ''0xbtc15'', kalshi_getMarketPrices ''KXBTC-C'',
            poly_buyToken ''0xbtc15'' YES 100 40, kalshi_buyToken ''0xbtc15'' no 100 48])"
proof -
  have t: "takeProfit cfg0 = 90" "dateNow env0 n = 0" for n
    by (simp_all add: cfg0_def env0_def)
  have i: "marketId opp0 = ''0xbtc15''" "md_isResolved md0 = False"
    by (simp_all add: opp0_def md0_def)
  show ?thesis using assms
    by (simp add: scanAndTrade_def matchMarkets_example t detect_example i amount_example
        execute_example)
qed




text \<open>
  C6 fails on the code. The guard of \<^verbatim>\<open>scanAndTrade\<close> looks at the first position of
  the list with the market's id only; once that one is redeemed it no longer sees a later
  active one. With venues that keep listing the market, a tick, a poll that redeems the
  position, and two more ticks leave two active positions on the same market.
\<close>

theorem duplicate_guard_two_active:
  "fst (run cfg0 env0 [Tick, Poll, Tick, Tick]) = [pos0\<lparr>status := redeemed\<rparr>, pos0, pos0]
   \<and> activeCount ''0xbtc15'' (fst (run cfg0 env0 [Tick, Poll, Tick, Tick])) = 2"
proof -
  have g0: "(case find (\<lambda>p. pos_marketId p = ''0xbtc15'') [] of
               Some p \<Rightarrow> status p = active | None \<Rightarrow> False) = False"
    by simp
  have g1: "(case find (\<lambda>p. pos_marketId p = ''0xbtc15'') ([pos0\<lparr>status := redeemed\<rparr>] @ ps) of
               Some p \<Rightarrow> status p = active | None \<Rightarrow> False) = False" for ps
    by (simp add: pos0_def)
  obtain t1 where s1: "scanAndTrade cfg0 env0 [] [] = ([pos0], t1)"
    using tick_example [OF g0, of "[]"] by simp
  obtain t2 where s2: "checkAndRedeem env0 [pos0] t1 = ([pos0\<lparr>status := redeemed\<rparr>], t2)"
    using poll_example [of t1] by simp
  obtain t3 where s3: "scanAndTrade cfg0 env0 [pos0\<lparr>status := redeemed\<rparr>] t2 =
      ([pos0\<lparr>status := redeemed\<rparr>, pos0], t3)"
    using tick_example [OF g1 [of "[]"], of t2] by simp
  obtain t4 where s4: "scanAndTrade cfg0 env0 [pos0\<lparr>status := redeemed\<rparr>, pos0] t3 =
      ([pos0\<lparr>status := redeemed\<rparr>, pos0, pos0], t4)"
    using tick_example [OF g1 [of "[pos0]"], of t3] by simp
  have r: "fst (run cfg0 env0 [Tick, Poll, Tick, Tick]) =
      [pos0\<lparr>status := redeemed\<rparr>, pos0, pos0]"
    by (simp add: run_def botStep_def s1 s2 s3 s4 del: checkAndRedeem.simps)
  then show ?thesis
    by (simp add: activeCount_def pos0_def)
qed

end
